theory Spec2Isabelle
  imports Main "HOL-Library.AList" "HOL-Library.Word"
begin

section \<open>The room server of timesync\<close>

text \<open>
  The development embeds the Express server whose source is the second document of
  \<^verbatim>\<open>src/script.js\<close> (lines 302 to 517): the helpers \<^verbatim>\<open>sendSSE\<close>, \<^verbatim>\<open>broadcast\<close> and
  \<^verbatim>\<open>generateRoomCode\<close>, the stream endpoint \<^verbatim>\<open>GET /events\<close> with its \<^verbatim>\<open>close\<close> handler,
  and the handlers of \<^verbatim>\<open>POST /rooms\<close>, \<^verbatim>\<open>/rooms/:code/join\<close>, \<^verbatim>\<open>/rooms/:code/reset\<close> and
  \<^verbatim>\<open>/rooms/:code/leave\<close>.

  Conventions of the embedding.
  \<^item> A JavaScript \<^verbatim>\<open>Map\<close> iterates in insertion order, \<^verbatim>\<open>set\<close> on a present key keeps
    its position and \<^verbatim>\<open>delete\<close> removes the entry: an association list with
    \<^const>\<open>AList.update\<close> and \<^const>\<open>AList.delete\<close>. A \<^verbatim>\<open>Set\<close> is a list that \<^verbatim>\<open>add\<close> extends at
    the end when the element is new.
  \<^item> A room object is reached through the registry entry of its code. The \<^verbatim>\<open>close\<close>
    handler holds a reference to the room object; a room leaves the registry only when
    its stream set is empty, so a handler that can still run finds its room under the
    code it captured, and the handler is modelled by that lookup.
  \<^item> Timestamps are the integers of \<^verbatim>\<open>Date.now()\<close> (milliseconds). Every call of
    \<^verbatim>\<open>Date.now()\<close> is a reading of its own and is an argument of the handler that makes
    it. The request field \<^verbatim>\<open>startTime\<close> is an integer timestamp or absent, so
    \<^verbatim>\<open>Number(room.startTime)\<close> is the stored integer.
  \<^item> Request strings (room codes, member ids) are ASCII; an absent field is \<open>None\<close>.
  \<^item> The random sources are arguments: the three bytes of \<^verbatim>\<open>crypto.randomBytes(3)\<close> and
    the string returned by \<^verbatim>\<open>crypto.randomUUID()\<close>.
  \<^item> \<^verbatim>\<open>res.write\<close> may throw. The set \<open>faults\<close> holds the pairs of a handle and a chunk
    whose write throws; the chunks that were written are collected, in order, on the wire.
  \<^item> Console output is not modelled. The one argument of a log call that can throw is: the
    reset handler formats the new start time with \<^verbatim>\<open>new Date(...).toISOString()\<close>, which
    throws a \<^verbatim>\<open>RangeError\<close> outside the range of \<^verbatim>\<open>Date\<close>.
\<close>

subsection \<open>JavaScript collections\<close>

definition map_has :: "('k \<times> 'v) list \<Rightarrow> 'k \<Rightarrow> bool" where
  "map_has m k = (map_of m k \<noteq> None)"

definition map_set :: "('k \<times> 'v) list \<Rightarrow> 'k \<Rightarrow> 'v \<Rightarrow> ('k \<times> 'v) list" where
  "map_set m k v = AList.update k v m"

definition map_delete :: "('k \<times> 'v) list \<Rightarrow> 'k \<Rightarrow> ('k \<times> 'v) list" where
  "map_delete m k = AList.delete k m"

definition map_values :: "('k \<times> 'v) list \<Rightarrow> 'v list" where
  "map_values m = map snd m"

definition set_add :: "'a list \<Rightarrow> 'a \<Rightarrow> 'a list" where
  "set_add s x = (if x \<in> set s then s else s @ [x])"

definition set_delete :: "'a list \<Rightarrow> 'a \<Rightarrow> 'a list" where
  "set_delete s x = removeAll x s"

subsection \<open>Data model\<close>

type_synonym handle = nat

record member =
  member_id :: string
  name :: string
  timezone :: string
  locale_tag :: string
  joinedAt :: int

record room =
  code :: string
  createdAt :: int
  startTime :: int
  previousStartTime :: int
  members :: "(string \<times> member) list"
  streams :: "handle list"

type_synonym registry = "(string \<times> room) list"

text \<open>The payloads that are serialised with \<^verbatim>\<open>JSON.stringify\<close>.\<close>

datatype payload =
    InitData int int int string "member list"
  | MemberJoinedData member
  | MemberLeftData string
  | TimerUpdateData int int

text \<open>
  \<open>InitData createdAt startTime previousStartTime code members\<close>,
  \<open>TimerUpdateData startTime previousStartTime\<close>. A chunk is one call of \<^verbatim>\<open>res.write\<close>:
  the line \<^verbatim>\<open>event: <name>\<close> or the line \<^verbatim>\<open>data: <json>\<close>.
\<close>

datatype chunk = EventLine string | DataLine payload

type_synonym wire = "(handle \<times> chunk) list"

type_synonym faults = "(handle \<times> chunk) set"

datatype js_error = WriteError | RangeError

record room_state =
  rs_code :: string
  rs_createdAt :: int
  rs_startTime :: int
  rs_previousStartTime :: int
  rs_members :: "member list"

datatype response =
    NotFound
  | BadRequest string
  | RoomCreated string int
  | Joined member room_state
  | TimerReset int
  | NoContent
  | StreamOpen
  | ServerError js_error

text \<open>
  \<open>NotFound\<close> is status 404, \<open>BadRequest\<close> status 400 with the error text,
  \<open>NoContent\<close> status 204, \<open>StreamOpen\<close> the 200 header of an event stream that stays
  open. \<open>ServerError\<close> is the status 500 that Express answers when a handler throws.
\<close>

subsection \<open>Helpers\<close>

definition res_write :: "faults \<Rightarrow> handle \<Rightarrow> chunk \<Rightarrow> wire \<Rightarrow> (js_error + unit) \<times> wire" where
  "res_write faults res c w =
     (if (res, c) \<in> faults then (Inl WriteError, w) else (Inr (), w @ [(res, c)]))"

text \<open>\<^verbatim>\<open>sendSSE\<close>: the two writes run inside \<^verbatim>\<open>try\<close>; the \<^verbatim>\<open>catch\<close> block only logs.\<close>

definition sendSSE :: "faults \<Rightarrow> handle \<Rightarrow> string \<Rightarrow> payload \<Rightarrow> wire \<Rightarrow> (js_error + unit) \<times> wire" where
  "sendSSE faults res event data w =
     (case res_write faults res (EventLine event) w of
        (Inl err, w1) \<Rightarrow> (Inr (), w1)
      | (Inr u, w1) \<Rightarrow>
          (case res_write faults res (DataLine data) w1 of
             (Inl err, w2) \<Rightarrow> (Inr (), w2)
           | (Inr u', w2) \<Rightarrow> (Inr (), w2)))"

text \<open>The \<^verbatim>\<open>for ... of\<close> loop of \<^verbatim>\<open>broadcast\<close>: an exception of the body leaves the loop.\<close>

fun broadcast_loop :: "faults \<Rightarrow> handle list \<Rightarrow> string \<Rightarrow> payload \<Rightarrow> wire \<Rightarrow> (js_error + unit) \<times> wire" where
  "broadcast_loop faults [] event data w = (Inr (), w)"
| "broadcast_loop faults (res # rest) event data w =
     (case sendSSE faults res event data w of
        (Inl err, w1) \<Rightarrow> (Inl err, w1)
      | (Inr u, w1) \<Rightarrow> broadcast_loop faults rest event data w1)"

definition broadcast :: "faults \<Rightarrow> room \<Rightarrow> string \<Rightarrow> payload \<Rightarrow> wire \<Rightarrow> (js_error + unit) \<times> wire" where
  "broadcast faults room event data w = broadcast_loop faults (streams room) event data w"

text \<open>\<^verbatim>\<open>crypto.randomBytes(3).toString("hex").toUpperCase()\<close>\<close>

definition hex_digits :: string where
  "hex_digits = ''0123456789ABCDEF''"

definition hex_digit :: "nat \<Rightarrow> char" where
  "hex_digit n = hex_digits ! (n mod 16)"

definition hex_byte :: "8 word \<Rightarrow> string" where
  "hex_byte b = [hex_digit (unat b div 16), hex_digit (unat b mod 16)]"

definition generateRoomCode :: "8 word \<times> 8 word \<times> 8 word \<Rightarrow> string" where
  "generateRoomCode rnd = (case rnd of (b0, b1, b2) \<Rightarrow> hex_byte b0 @ hex_byte b1 @ hex_byte b2)"

text \<open>
  \<^verbatim>\<open>roomCode.toUpperCase().replace(/[^A-Z0-9]/g, "")\<close> on ASCII strings: the letters a to z
  are mapped to A to Z, and every character outside the class \<^verbatim>\<open>[A-Z0-9]\<close>, the characters of
  \<open>code_alphabet\<close>, is removed.
\<close>

definition upper_char :: "char \<Rightarrow> char" where
  "upper_char c =
     (case map_of (zip ''abcdefghijklmnopqrstuvwxyz'' ''ABCDEFGHIJKLMNOPQRSTUVWXYZ'') c of
        Some u \<Rightarrow> u
      | None \<Rightarrow> c)"

definition toUpperCase :: "string \<Rightarrow> string" where
  "toUpperCase s = map upper_char s"

definition code_alphabet :: string where
  "code_alphabet = ''ABCDEFGHIJKLMNOPQRSTUVWXYZ0123456789''"

definition is_upper_alnum :: "char \<Rightarrow> bool" where
  "is_upper_alnum c = (c \<in> set code_alphabet)"

definition strip_non_alnum :: "string \<Rightarrow> string" where
  "strip_non_alnum s = filter is_upper_alnum s"

definition normalize_code :: "string \<Rightarrow> string" where
  "normalize_code s = strip_non_alnum (toUpperCase s)"

text \<open>
  Truthiness of an optional string, and \<^verbatim>\<open>v || d\<close> for an optional number \<open>v\<close>: the
  falsy values are the absent field, the empty string and the number 0.
\<close>

definition truthy_str :: "string option \<Rightarrow> bool" where
  "truthy_str v = (case v of None \<Rightarrow> False | Some s \<Rightarrow> s \<noteq> [])"

definition num_or :: "int option \<Rightarrow> int \<Rightarrow> int" where
  "num_or v d = (case v of None \<Rightarrow> d | Some n \<Rightarrow> if n \<noteq> 0 then n else d)"

text \<open>
  \<^verbatim>\<open>room.members.get(memberId)\<close> for an optional id: \<open>None\<close> exactly when
  \<^verbatim>\<open>room.members.has(memberId)\<close> is false.
\<close>

definition member_lookup :: "room \<Rightarrow> string option \<Rightarrow> member option" where
  "member_lookup room memberId = (case memberId of None \<Rightarrow> None | Some m \<Rightarrow> map_of (members room) m)"

text \<open>The room object registered under a code, after a mutation in place.\<close>

definition put_room :: "registry \<Rightarrow> string \<Rightarrow> room \<Rightarrow> registry" where
  "put_room rooms c room = AList.update c room rooms"

text \<open>
  \<^verbatim>\<open>new Date(t)\<close> holds a valid time value exactly for \<open>t\<close> within 8.64e15 milliseconds of
  the epoch; \<^verbatim>\<open>toISOString\<close> throws a \<^verbatim>\<open>RangeError\<close> on the other dates.
\<close>

definition date_valid :: "int \<Rightarrow> bool" where
  "date_valid t = (- 8640000000000000 \<le> t \<and> t \<le> 8640000000000000)"

definition room_state_of :: "room \<Rightarrow> room_state" where
  "room_state_of room =
     \<lparr>rs_code = code room, rs_createdAt = createdAt room, rs_startTime = startTime room,
      rs_previousStartTime = previousStartTime room, rs_members = map_values (members room)\<rparr>"

text \<open>The object literal that the stream endpoint sends as \<^verbatim>\<open>init\<close>.\<close>

definition init_payload :: "room \<Rightarrow> payload" where
  "init_payload room =
     InitData (createdAt room) (startTime room) (previousStartTime room) (code room)
       (map_values (members room))"

subsection \<open>The stream endpoint\<close>

text \<open>\<^verbatim>\<open>app.get("/events")\<close> up to the registration of the \<^verbatim>\<open>close\<close> handler.\<close>

definition events :: "faults \<Rightarrow> registry \<Rightarrow> string \<Rightarrow> handle \<Rightarrow> response \<times> registry \<times> wire" where
  "events faults rooms c res =
     (case map_of rooms c of
        None \<Rightarrow> (NotFound, rooms, [])
      | Some room \<Rightarrow>
          (let room' = room\<lparr>streams := set_add (streams room) res\<rparr>;
               rooms' = put_room rooms c room'
           in case sendSSE faults res ''init'' (init_payload room') [] of
                (Inl err, w) \<Rightarrow> (ServerError err, rooms', w)
              | (Inr u, w) \<Rightarrow> (StreamOpen, rooms', w)))"

text \<open>
  The \<^verbatim>\<open>close\<close> handler of the stream \<open>res\<close> opened with the query \<open>code = c\<close> and
  \<open>memberId\<close>. The first component is \<open>Inl\<close> when the handler throws.
\<close>

definition on_close :: "faults \<Rightarrow> registry \<Rightarrow> string \<Rightarrow> string option \<Rightarrow> handle \<Rightarrow> (js_error + unit) \<times> registry \<times> wire" where
  "on_close faults rooms c memberId res =
     (case map_of rooms c of
        None \<Rightarrow> (Inr (), rooms, [])
      | Some room \<Rightarrow>
          (let room1 = room\<lparr>streams := set_delete (streams room) res\<rparr>;
               removed =
                 (case memberId of
                    None \<Rightarrow> (Inr (), room1, [])
                  | Some m \<Rightarrow>
                      if m \<noteq> [] \<and> map_has (members room1) m then
                        (let room2 = room1\<lparr>members := map_delete (members room1) m\<rparr>
                         in case broadcast faults room2 ''member-left'' (MemberLeftData m) [] of
                              (r, w) \<Rightarrow> (r, room2, w))
                      else (Inr (), room1, []))
           in case removed of
                (Inl err, room2, w) \<Rightarrow> (Inl err, put_room rooms c room2, w)
              | (Inr u, room2, w) \<Rightarrow>
                  if length (members room2) = 0 \<and> length (streams room2) = 0
                  then (Inr (), map_delete rooms c, w)
                  else (Inr (), put_room rooms c room2, w)))"

subsection \<open>The API handlers\<close>

text \<open>
  \<^verbatim>\<open>app.post("/rooms")\<close>. \<open>now1\<close>, \<open>now2\<close> and \<open>now3\<close> are the readings of \<^verbatim>\<open>Date.now()\<close> in
  the room literal, in the order of its fields, and \<open>now4\<close> the reading in the response.
\<close>

definition createRoom :: "8 word \<times> 8 word \<times> 8 word \<Rightarrow> int \<Rightarrow> int \<Rightarrow> int \<Rightarrow> int \<Rightarrow> registry \<Rightarrow> string option \<Rightarrow> response \<times> registry" where
  "createRoom rnd now1 now2 now3 now4 rooms roomCode =
     (let roomCode1 =
            (case roomCode of
               None \<Rightarrow> generateRoomCode rnd
             | Some s \<Rightarrow>
                 if s = [] then generateRoomCode rnd
                 else (let n = normalize_code s in if n = [] then generateRoomCode rnd else n))
      in if map_has rooms roomCode1 then (BadRequest ''Room code already exists'', rooms)
         else (RoomCreated roomCode1 now4,
               map_set rooms roomCode1
                 \<lparr>code = roomCode1, createdAt = now1, startTime = now2, previousStartTime = now3,
                  members = [], streams = []\<rparr>))"

text \<open>
  \<^verbatim>\<open>app.post("/rooms/:code/join")\<close>. \<open>uuid\<close> is the value of \<^verbatim>\<open>crypto.randomUUID()\<close> and
  \<open>now\<close> the reading of \<^verbatim>\<open>Date.now()\<close>; both are used on the second branch only.
\<close>

definition join :: "faults \<Rightarrow> string \<Rightarrow> int \<Rightarrow> registry \<Rightarrow> string \<Rightarrow> string option \<Rightarrow> string \<Rightarrow> string \<Rightarrow> string \<Rightarrow> response \<times> registry \<times> wire" where
  "join faults uuid now rooms c memberId name' timezone' locale' =
     (case map_of rooms c of
        None \<Rightarrow> (NotFound, rooms, [])
      | Some room \<Rightarrow>
          (case (if truthy_str memberId then member_lookup room memberId else None) of
             Some member \<Rightarrow> (Joined member (room_state_of room), rooms, [])
           | None \<Rightarrow>
               (let member = \<lparr>member_id = uuid, name = name', timezone = timezone',
                              locale_tag = locale', joinedAt = now\<rparr>;
                    room' = room\<lparr>members := map_set (members room) (member_id member) member\<rparr>;
                    rooms' = put_room rooms c room'
                in case broadcast faults room' ''member-joined'' (MemberJoinedData member) [] of
                     (Inl err, w) \<Rightarrow> (ServerError err, rooms', w)
                   | (Inr u, w) \<Rightarrow> (Joined member (room_state_of room'), rooms', w))))"

text \<open>
  \<^verbatim>\<open>app.post("/rooms/:code/reset")\<close>. \<open>now\<close> is the one reading of \<^verbatim>\<open>Date.now()\<close>, and
  \<open>startTime'\<close> the field \<^verbatim>\<open>startTime\<close> of the request body. After the two assignments
  the handler logs \<^verbatim>\<open>new Date(room.startTime).toISOString()\<close>: for a start time that is not
  a valid date this throws, before the broadcast and before the answer.
\<close>

definition reset :: "faults \<Rightarrow> int \<Rightarrow> registry \<Rightarrow> string \<Rightarrow> int option \<Rightarrow> response \<times> registry \<times> wire" where
  "reset faults now rooms c startTime' =
     (case map_of rooms c of
        None \<Rightarrow> (NotFound, rooms, [])
      | Some room \<Rightarrow>
          (let currentStart = startTime room;
               isExpired = (currentStart \<le> now);
               room1 = (if isExpired then room\<lparr>previousStartTime := currentStart\<rparr> else room);
               room2 = room1\<lparr>startTime := num_or startTime' now\<rparr>;
               rooms' = put_room rooms c room2
           in if \<not> date_valid (startTime room2) then (ServerError RangeError, rooms', [])
              else
                (case broadcast faults room2 ''timer-update''
                        (TimerUpdateData (startTime room2) (previousStartTime room2)) [] of
                   (Inl err, w) \<Rightarrow> (ServerError err, rooms', w)
                 | (Inr u, w) \<Rightarrow> (TimerReset (startTime room2), rooms', w))))"

text \<open>\<^verbatim>\<open>app.post("/rooms/:code/leave")\<close>\<close>

definition leave :: "faults \<Rightarrow> registry \<Rightarrow> string \<Rightarrow> string option \<Rightarrow> response \<times> registry \<times> wire" where
  "leave faults rooms c memberId =
     (case map_of rooms c of
        None \<Rightarrow> (NoContent, rooms, [])
      | Some room \<Rightarrow>
          (case memberId of
             None \<Rightarrow> (NoContent, rooms, [])
           | Some m \<Rightarrow>
               if map_has (members room) m then
                 (let room' = room\<lparr>members := map_delete (members room) m\<rparr>;
                      rooms' = put_room rooms c room'
                  in case broadcast faults room' ''member-left'' (MemberLeftData m) [] of
                       (Inl err, w) \<Rightarrow> (ServerError err, rooms', w)
                     | (Inr u, w) \<Rightarrow> (NoContent, rooms', w))
               else (NoContent, rooms, [])))"

subsection \<open>Sample states\<close>

definition sample_member :: member where
  "sample_member = \<lparr>member_id = ''6f1c2d3e-4a5b-4c6d-8e7f-8091a2b3c4d5'', name = ''Alice'', timezone = ''UTC'',
     locale_tag = ''en'', joinedAt = 450\<rparr>"

definition sample_room :: room where
  "sample_room = \<lparr>code = ''A1B2C3'', createdAt = 400, startTime = 500, previousStartTime = 400,
     members = [], streams = []\<rparr>"

definition other_room :: room where
  "other_room = \<lparr>code = ''0F0F0F'', createdAt = 100, startTime = 900, previousStartTime = 100,
     members = [(''6f1c2d3e-4a5b-4c6d-8e7f-8091a2b3c4d5'', sample_member)], streams = [1, 2]\<rparr>"

definition fresh_room :: room where
  "fresh_room = \<lparr>code = ''A1B2C3'', createdAt = 400, startTime = 400, previousStartTime = 400,
     members = [], streams = []\<rparr>"

definition solo_room :: room where
  "solo_room = \<lparr>code = ''A1B2C3'', createdAt = 400, startTime = 400, previousStartTime = 400,
     members = [(''6f1c2d3e-4a5b-4c6d-8e7f-8091a2b3c4d5'', sample_member)], streams = []\<rparr>"

definition sample_registry :: registry where
  "sample_registry = [(''A1B2C3'', sample_room), (''0F0F0F'', other_room)]"

section \<open>Properties\<close>

subsection \<open>Broadcasting never throws\<close>

lemma sendSSE_returns: "fst (sendSSE faults res event data w) = Inr ()"
  by (simp add: sendSSE_def res_write_def)

lemma broadcast_loop_returns: "fst (broadcast_loop faults rs event data w) = Inr ()"
proof (induction rs arbitrary: w)
  case Nil
  then show ?case by simp
next
  case (Cons r rs)
  obtain x w1 where s: "sendSSE faults r event data w = (x, w1)"
    by (cases "sendSSE faults r event data w")
  with sendSSE_returns[of faults r event data w] have "x = Inr ()" by simp
  with s Cons show ?case by simp
qed

lemma broadcast_returns: "fst (broadcast faults room event data w) = Inr ()"
  by (simp add: broadcast_def broadcast_loop_returns)

lemma broadcast_cases: "\<exists>w'. broadcast faults room event data w = (Inr (), w')"
  using broadcast_returns[of faults room event data w]
  by (cases "broadcast faults room event data w") simp

subsection \<open>The registry entry of a mutated room\<close>

lemma map_of_put_room_same: "map_of (put_room rooms c r) c = Some r"
  by (simp add: put_room_def update_conv')

lemma map_of_put_room_other: "c' \<noteq> c \<Longrightarrow> map_of (put_room rooms c r) c' = map_of rooms c'"
  by (simp add: put_room_def update_conv')

lemma keys_put_room: "map_of rooms c = Some r0 \<Longrightarrow> map fst (put_room rooms c r) = map fst rooms"
proof -
  assume "map_of rooms c = Some r0"
  then have "map_of rooms c \<noteq> None" by simp
  then have "c \<in> fst ` set rooms" by (simp only: map_of_eq_None_iff not_not)
  then show ?thesis by (simp add: put_room_def update_keys)
qed

subsection \<open>Reset\<close>

text \<open>What \<^const>\<open>reset\<close> computes on a room that exists.\<close>

lemma reset_found:
  assumes "map_of rooms c = Some room"
  shows "reset faults now rooms c st =
     (if date_valid (num_or st now) then TimerReset (num_or st now) else ServerError RangeError,
      put_room rooms c
        (room\<lparr>previousStartTime :=
                 (if startTime room \<le> now then startTime room else previousStartTime room),
              startTime := num_or st now\<rparr>),
      if date_valid (num_or st now) then
        snd (broadcast faults
          (room\<lparr>previousStartTime :=
                   (if startTime room \<le> now then startTime room else previousStartTime room),
                startTime := num_or st now\<rparr>) ''timer-update''
          (TimerUpdateData (num_or st now)
             (if startTime room \<le> now then startTime room else previousStartTime room)) [])
      else [])"
proof -
  let ?p = "if startTime room \<le> now then startTime room else previousStartTime room"
  let ?r2 = "room\<lparr>previousStartTime := ?p, startTime := num_or st now\<rparr>"
  obtain w' where b: "broadcast faults ?r2 ''timer-update'' (TimerUpdateData (num_or st now) ?p) [] = (Inr (), w')"
    using broadcast_cases by blast
  show ?thesis
  proof (cases "startTime room \<le> now")
    case True
    with assms b show ?thesis by (simp add: reset_def Let_def)
  next
    case False
    with assms b show ?thesis by (simp add: reset_def Let_def)
  qed
qed

lemma reset_registry:
  assumes "map_of rooms c = Some room"
    and "reset faults now rooms c st = (resp, rooms', w)"
  shows "rooms' = put_room rooms c
        (room\<lparr>previousStartTime :=
                 (if startTime room \<le> now then startTime room else previousStartTime room),
              startTime := num_or st now\<rparr>)"
  using assms(2) reset_found[OF assms(1), of faults now st] by simp

text \<open>
  Claim C1. A reset of an existing room at clock reading \<open>now\<close>: when the room's start time
  is at or before \<open>now\<close> (equality included, it counts as expired), the previous start time
  becomes the start time the room had at the call; when the start time is after \<open>now\<close>, the
  previous start time is unchanged. This holds for every timestamp, every requested start
  time and every pattern of write failures.
\<close>

theorem reset_banks_expired_start:
  assumes "map_of rooms c = Some room"
    and "reset faults now rooms c st = (resp, rooms', w)"
  shows "\<exists>room'. map_of rooms' c = Some room' \<and>
           (startTime room \<le> now \<longrightarrow> previousStartTime room' = startTime room) \<and>
           (startTime room > now \<longrightarrow> previousStartTime room' = previousStartTime room)"
  unfolding reset_registry[OF assms] by (simp add: map_of_put_room_same)

theorem reset_banks_expired_start_witness:
  "map_of sample_registry ''A1B2C3'' = Some sample_room \<and>
   startTime sample_room = 500 \<and>
   (\<exists>room'. map_of (fst (snd (reset {} 500 sample_registry ''A1B2C3'' None))) ''A1B2C3'' = Some room' \<and>
      previousStartTime room' = 500)"
proof -
  have h1: "map_of sample_registry ''A1B2C3'' = Some sample_room"
    by (simp add: sample_registry_def)
  have h2: "reset {} 500 sample_registry ''A1B2C3'' None =
      (fst (reset {} 500 sample_registry ''A1B2C3'' None),
       fst (snd (reset {} 500 sample_registry ''A1B2C3'' None)),
       snd (snd (reset {} 500 sample_registry ''A1B2C3'' None)))"
    by simp
  from reset_banks_expired_start[OF h1 h2] h1 show ?thesis
    by (simp add: sample_room_def)
qed

text \<open>The start time after a reset, for every request.\<close>

lemma reset_startTime:
  assumes "map_of rooms c = Some room"
    and "reset faults now rooms c st = (resp, rooms', w)"
  shows "\<exists>room'. map_of rooms' c = Some room' \<and>
           startTime room' = (case st of None \<Rightarrow> now | Some t \<Rightarrow> if t = 0 then now else t) \<and>
           resp = (if date_valid (startTime room') then TimerReset (startTime room')
                   else ServerError RangeError)"
proof -
  from assms(2) reset_found[OF assms(1), of faults now st]
  have "resp = (if date_valid (num_or st now) then TimerReset (num_or st now) else ServerError RangeError)"
    by simp
  then show ?thesis
    unfolding reset_registry[OF assms]
    by (simp add: map_of_put_room_same num_or_def split: option.splits)
qed

text \<open>
  A start time outside the range of \<^verbatim>\<open>Date\<close>: the room is changed, the log line throws,
  nothing is broadcast and the answer is status 500.
\<close>

lemma reset_invalid_date:
  "reset {} 1000 sample_registry ''0F0F0F'' (Some 8640000000000001) =
     (ServerError RangeError,
      [(''A1B2C3'', sample_room),
       (''0F0F0F'', other_room\<lparr>startTime := 8640000000000001, previousStartTime := 900\<rparr>)],
      [])"
  by code_simp

text \<open>
  Claim C5. After a reset the room's start time is the requested start time when the
  request provides one, the value 0 included, and the clock reading otherwise. The handler
  computes \<^verbatim>\<open>startTime || now\<close>, so a provided 0 is falsy: the reset below, at clock reading
  1000 with the requested start time 0, stores 1000 and answers 1000.
\<close>

theorem reset_zero_startTime:
  "reset {} 1000 sample_registry ''A1B2C3'' (Some 0) =
     (TimerReset 1000,
      [(''A1B2C3'', sample_room\<lparr>startTime := 1000, previousStartTime := 500\<rparr>), (''0F0F0F'', other_room)],
      [])"
  by code_simp

text \<open>
  Claim C10. A reset of an existing room changes no field of that room but its start time
  and its previous start time: code, creation time, member map and stream set are the ones
  before the call. The registry keeps its keys, and every other room is the same as before.
\<close>

theorem reset_frame:
  assumes "map_of rooms c = Some room"
    and "reset faults now rooms c st = (resp, rooms', w)"
  shows "\<exists>room'. map_of rooms' c = Some room' \<and>
           room' = room\<lparr>startTime := startTime room', previousStartTime := previousStartTime room'\<rparr> \<and>
           code room' = code room \<and> createdAt room' = createdAt room \<and>
           members room' = members room \<and> streams room' = streams room \<and>
           map fst rooms' = map fst rooms \<and>
           (\<forall>c'. c' \<noteq> c \<longrightarrow> map_of rooms' c' = map_of rooms c')"
  unfolding reset_registry[OF assms]
  by (simp add: map_of_put_room_same map_of_put_room_other keys_put_room[OF assms(1)])

theorem reset_frame_witness:
  "map_of sample_registry ''0F0F0F'' = Some other_room \<and>
   map_of (fst (snd (reset {(2, EventLine ''timer-update'')} 950 sample_registry ''0F0F0F'' (Some 2000)))) ''A1B2C3''
     = Some sample_room \<and>
   map fst (fst (snd (reset {(2, EventLine ''timer-update'')} 950 sample_registry ''0F0F0F'' (Some 2000))))
     = [''A1B2C3'', ''0F0F0F''] \<and>
   (\<exists>room'. map_of (fst (snd (reset {(2, EventLine ''timer-update'')} 950 sample_registry ''0F0F0F'' (Some 2000)))) ''0F0F0F''
        = Some room' \<and>
      code room' = ''0F0F0F'' \<and> createdAt room' = 100 \<and>
      members room' = [(''6f1c2d3e-4a5b-4c6d-8e7f-8091a2b3c4d5'', sample_member)] \<and> streams room' = [1, 2])"
proof -
  let ?res = "reset {(2, EventLine ''timer-update'')} 950 sample_registry ''0F0F0F'' (Some 2000)"
  have h1: "map_of sample_registry ''0F0F0F'' = Some other_room"
    by (simp add: sample_registry_def)
  have h2: "?res = (fst ?res, fst (snd ?res), snd (snd ?res))"
    by simp
  from reset_frame[OF h1 h2] obtain room' where
    r: "map_of (fst (snd ?res)) ''0F0F0F'' = Some room'"
      "code room' = code other_room" "createdAt room' = createdAt other_room"
      "members room' = members other_room" "streams room' = streams other_room"
      "map fst (fst (snd ?res)) = map fst sample_registry"
      "\<forall>c'. c' \<noteq> ''0F0F0F'' \<longrightarrow> map_of (fst (snd ?res)) c' = map_of sample_registry c'"
    by blast
  from r(7) have o: "map_of (fst (snd ?res)) ''A1B2C3'' = Some sample_room"
    by (simp add: sample_registry_def)
  from r(1-6) o h1 show ?thesis
    by (simp add: other_room_def sample_registry_def)
qed

subsection \<open>Room codes\<close>

lemma hex_digit_char: "hex_digit n \<in> set hex_digits"
  unfolding hex_digit_def by (rule nth_mem) (simp add: hex_digits_def)

lemma hex_byte_chars: "set (hex_byte b) \<subseteq> set hex_digits"
  by (simp add: hex_byte_def hex_digit_char)

lemma generateRoomCode_shape:
  "length (generateRoomCode rnd) = 6 \<and> set (generateRoomCode rnd) \<subseteq> set hex_digits"
proof -
  obtain b0 b1 b2 where r: "rnd = (b0, b1, b2)" by (cases rnd)
  have l: "length (hex_byte b) = 2" for b by (simp add: hex_byte_def)
  show ?thesis unfolding r generateRoomCode_def by (simp add: l hex_byte_chars)
qed

lemma generateRoomCode_nonempty: "generateRoomCode rnd \<noteq> []"
proof
  assume "generateRoomCode rnd = []"
  then have "length (generateRoomCode rnd) = 0" by simp
  with generateRoomCode_shape[of rnd] show False by simp
qed

lemma normalize_code_chars: "set (normalize_code s) \<subseteq> set code_alphabet"
  by (auto simp: normalize_code_def strip_non_alnum_def is_upper_alnum_def)

lemma upper_char_fixed_all: "\<forall>c\<in>set code_alphabet. upper_char c = c"
  by code_simp

lemma upper_char_fixed: "is_upper_alnum c \<Longrightarrow> upper_char c = c"
  using upper_char_fixed_all unfolding is_upper_alnum_def by blast

lemma normalize_code_idem: "normalize_code (normalize_code s) = normalize_code s"
proof -
  have "map upper_char (filter is_upper_alnum xs) = filter is_upper_alnum xs" for xs
    by (induction xs) (simp_all add: upper_char_fixed)
  then show ?thesis by (simp add: normalize_code_def strip_non_alnum_def toUpperCase_def)
qed

subsection \<open>Creating a room\<close>

lemma map_set_fresh: "map_of m k = None \<Longrightarrow> map_set m k v = m @ [(k, v)]"
  unfolding map_set_def by (induction m) (auto split: if_splits)

lemma createRoom_candidate:
  "createRoom rnd now1 now2 now3 now4 rooms roomCode =
     (let cand = (case roomCode of None \<Rightarrow> generateRoomCode rnd
                  | Some s \<Rightarrow> if normalize_code s = [] then generateRoomCode rnd else normalize_code s)
      in if map_of rooms cand \<noteq> None then (BadRequest ''Room code already exists'', rooms)
         else (RoomCreated cand now4,
               rooms @ [(cand, \<lparr>code = cand, createdAt = now1, startTime = now2,
                  previousStartTime = now3, members = [], streams = []\<rparr>)]))"
proof -
  have e: "normalize_code [] = []"
    by (simp add: normalize_code_def strip_non_alnum_def toUpperCase_def)
  show ?thesis
    by (cases roomCode) (auto simp: createRoom_def Let_def map_has_def map_set_fresh e)
qed

lemma createRoom_new_room:
  assumes "createRoom rnd now1 now2 now3 now4 rooms roomCode = (RoomCreated cd t, rooms')"
  shows "map_of rooms cd = None \<and> t = now4 \<and>
         rooms' = rooms @ [(cd, \<lparr>code = cd, createdAt = now1, startTime = now2,
            previousStartTime = now3, members = [], streams = []\<rparr>)]"
  using assms unfolding createRoom_candidate by (auto simp: Let_def split: if_splits)

text \<open>
  Claim C4, as stated: a requested code that is taken makes the handler fall back to a
  random code, so that creation succeeds. It does not: the request below asks for
  \<open>a1-b2 c3\<close>, which normalises to the code of a room of the registry, and the answer is
  status 400 with the registry unchanged.
\<close>

theorem createRoom_taken_code_fails:
  "createRoom (0x12, 0xAB, 0xFF) 1000 1000 1000 1000 sample_registry (Some ''a1-b2 c3'') =
     (BadRequest ''Room code already exists'', sample_registry)"
  by code_simp

text \<open>
  Claim C4, amended. A requested code is normalised: upper case, and only characters of
  \<^verbatim>\<open>[A-Z0-9]\<close> kept. When the result is empty the handler takes a generated random code
  instead. When the code so obtained is the code of a room of the registry, the handler
  answers 400 \<open>Room code already exists\<close> and the registry is unchanged; otherwise the room
  is created under that code, which was unused.
\<close>

theorem createRoom_requested_code:
  assumes "cand = (if normalize_code s = [] then generateRoomCode rnd else normalize_code s)"
  shows "set (normalize_code s) \<subseteq> set code_alphabet \<and>
         (map_of rooms cand \<noteq> None \<longrightarrow>
            createRoom rnd now1 now2 now3 now4 rooms (Some s) = (BadRequest ''Room code already exists'', rooms)) \<and>
         (map_of rooms cand = None \<longrightarrow>
            createRoom rnd now1 now2 now3 now4 rooms (Some s) =
              (RoomCreated cand now4,
               rooms @ [(cand, \<lparr>code = cand, createdAt = now1, startTime = now2,
                  previousStartTime = now3, members = [], streams = []\<rparr>)]))"
proof -
  have "set (normalize_code s) \<subseteq> set code_alphabet"
    by (rule normalize_code_chars)
  moreover have "map_of rooms cand \<noteq> None \<Longrightarrow>
      createRoom rnd now1 now2 now3 now4 rooms (Some s) = (BadRequest ''Room code already exists'', rooms)"
    unfolding createRoom_candidate assms by (simp add: Let_def)
  moreover have "map_of rooms cand = None \<Longrightarrow>
      createRoom rnd now1 now2 now3 now4 rooms (Some s) =
        (RoomCreated cand now4,
         rooms @ [(cand, \<lparr>code = cand, createdAt = now1, startTime = now2,
            previousStartTime = now3, members = [], streams = []\<rparr>)])"
    unfolding createRoom_candidate assms by (simp add: Let_def)
  ultimately show ?thesis by blast
qed

theorem createRoom_requested_code_witness:
  "createRoom (0x12, 0xAB, 0xFF) 1000 1000 1000 1000 sample_registry (Some ''my room!'') =
     (RoomCreated ''MYROOM'' 1000,
      sample_registry @ [(''MYROOM'', \<lparr>code = ''MYROOM'', createdAt = 1000, startTime = 1000,
         previousStartTime = 1000, members = [], streams = []\<rparr>)]) \<and>
   createRoom (0x12, 0xAB, 0xFF) 1000 1000 1000 1000 sample_registry (Some ''--'') =
     (RoomCreated ''12ABFF'' 1000,
      sample_registry @ [(''12ABFF'', \<lparr>code = ''12ABFF'', createdAt = 1000, startTime = 1000,
         previousStartTime = 1000, members = [], streams = []\<rparr>)]) \<and>
   createRoom (0x12, 0xAB, 0xFF) 1000 1000 1000 1000 sample_registry (Some ''0f.0f.0f'') =
     (BadRequest ''Room code already exists'', sample_registry)"
proof -
  have n1: "normalize_code ''my room!'' = ''MYROOM''" by code_simp
  have n3: "normalize_code ''0f.0f.0f'' = ''0F0F0F''" by code_simp
  have f3: "map_of sample_registry ''0F0F0F'' \<noteq> None" by (simp add: sample_registry_def)
  have c3: "''0F0F0F'' = (if normalize_code ''0f.0f.0f'' = [] then generateRoomCode (0x12, 0xAB, 0xFF)
      else normalize_code ''0f.0f.0f'')"
    by (simp add: n3)
  have n2: "normalize_code ''--'' = []" by code_simp
  have g: "generateRoomCode (0x12, 0xAB, 0xFF) = ''12ABFF''" by code_simp
  have f1: "map_of sample_registry ''MYROOM'' = None" by (simp add: sample_registry_def)
  have f2: "map_of sample_registry ''12ABFF'' = None" by (simp add: sample_registry_def)
  have c1: "''MYROOM'' = (if normalize_code ''my room!'' = [] then generateRoomCode (0x12, 0xAB, 0xFF)
      else normalize_code ''my room!'')"
    by (simp add: n1)
  have c2: "''12ABFF'' = (if normalize_code ''--'' = [] then generateRoomCode (0x12, 0xAB, 0xFF)
      else normalize_code ''--'')"
    by (simp add: n2 g)
  from createRoom_requested_code[OF c1, of sample_registry 1000 1000 1000 1000]
       createRoom_requested_code[OF c2, of sample_registry 1000 1000 1000 1000]
       createRoom_requested_code[OF c3, of sample_registry 1000 1000 1000 1000] f1 f2 f3
  show ?thesis by simp
qed

text \<open>
  Claim C8. A created room has start time, previous start time and creation time equal to
  each other and to the creation instant, and no member and no stream. The room literal
  reads \<^verbatim>\<open>Date.now()\<close> once per field, so the three timestamps differ when the clock ticks
  between the readings, as below with the readings 1000, 1000 and 1001.
\<close>

theorem createRoom_clock_tick:
  "createRoom (0x12, 0xAB, 0xFF) 1000 1000 1001 1001 [] None =
     (RoomCreated ''12ABFF'' 1001,
      [(''12ABFF'', \<lparr>code = ''12ABFF'', createdAt = 1000, startTime = 1000, previousStartTime = 1001,
          members = [], streams = []\<rparr>)])"
  by code_simp

subsection \<open>What a broadcast puts on the wire\<close>

lemma sendSSE_wire:
  "snd (sendSSE faults res event data w) =
     w @ (if (res, EventLine event) \<in> faults then []
          else if (res, DataLine data) \<in> faults then [(res, EventLine event)]
          else [(res, EventLine event), (res, DataLine data)])"
  by (simp add: sendSSE_def res_write_def)

lemma sendSSE_eq:
  "sendSSE faults res event data w = (Inr (), w @ snd (sendSSE faults res event data []))"
  by (simp add: sendSSE_def res_write_def)

lemma broadcast_loop_wire:
  "snd (broadcast_loop faults rs event data w) =
     w @ concat (map (\<lambda>h. snd (sendSSE faults h event data [])) rs)"
proof (induction rs arbitrary: w)
  case Nil
  then show ?case by simp
next
  case (Cons r rs)
  have "broadcast_loop faults (r # rs) event data w =
      broadcast_loop faults rs event data (w @ snd (sendSSE faults r event data []))"
    by (simp add: sendSSE_eq[of faults r event data w])
  then show ?case by (simp add: Cons.IH)
qed

lemma broadcast_wire:
  "snd (broadcast faults room event data w) =
     w @ concat (map (\<lambda>h. snd (sendSSE faults h event data [])) (streams room))"
  by (simp add: broadcast_def broadcast_loop_wire)

lemma sendSSE_handle: "(h', ch) \<in> set (snd (sendSSE faults h event data [])) \<Longrightarrow> h' = h"
  by (auto simp: sendSSE_wire split: if_splits)

lemma sendSSE_working:
  assumes "(h, EventLine event) \<notin> faults" and "(h, DataLine data) \<notin> faults"
  shows "snd (sendSSE faults h event data []) = [(h, EventLine event), (h, DataLine data)]"
  using assms by (simp add: sendSSE_wire)

lemma broadcast_delivers:
  assumes "h \<in> set (streams room)"
    and "(h, EventLine event) \<notin> faults" and "(h, DataLine data) \<notin> faults"
  shows "(h, EventLine event) \<in> set (snd (broadcast faults room event data w)) \<and>
         (h, DataLine data) \<in> set (snd (broadcast faults room event data w))"
proof -
  have "set (snd (sendSSE faults h event data [])) \<subseteq> set (snd (broadcast faults room event data w))"
    using assms(1) by (auto simp: broadcast_wire)
  then show ?thesis by (simp add: sendSSE_working[OF assms(2,3)])
qed

lemma broadcast_only_streams:
  "(h, ch) \<in> set (snd (broadcast faults room event data [])) \<Longrightarrow> h \<in> set (streams room)"
  by (auto simp: broadcast_wire dest: sendSSE_handle)

subsection \<open>Leaving a room\<close>

lemma leave_found:
  assumes "map_of rooms c = Some room" and "map_of (members room) m = Some member"
  shows "leave faults rooms c (Some m) =
     (NoContent, put_room rooms c (room\<lparr>members := map_delete (members room) m\<rparr>),
      snd (broadcast faults (room\<lparr>members := map_delete (members room) m\<rparr>) ''member-left''
             (MemberLeftData m) []))"
proof -
  obtain w' where b: "broadcast faults (room\<lparr>members := map_delete (members room) m\<rparr>) ''member-left''
             (MemberLeftData m) [] = (Inr (), w')"
    using broadcast_cases by blast
  with assms show ?thesis by (simp add: leave_def map_has_def Let_def)
qed

lemma leave_faults_irrelevant:
  "fst (leave faults rooms c memberId) = fst (leave {} rooms c memberId) \<and>
   fst (snd (leave faults rooms c memberId)) = fst (snd (leave {} rooms c memberId))"
proof (cases "\<exists>room m member. map_of rooms c = Some room \<and> memberId = Some m \<and> map_of (members room) m = Some member")
  case True
  then obtain room m member where
    h: "map_of rooms c = Some room" "memberId = Some m" "map_of (members room) m = Some member"
    by blast
  show ?thesis unfolding h(2) leave_found[OF h(1,3)] by simp
next
  case False
  then have "leave f rooms c memberId = (NoContent, rooms, [])" for f
    by (cases "map_of rooms c"; cases memberId) (auto simp: leave_def map_has_def)
  then show ?thesis by simp
qed

text \<open>
  Claim C9. A leave request on an existing room with a member id that is not a member of
  the room (or with no member id) changes nothing: the registry is the one before the call
  and nothing is written to any stream. The answer is status 204, the same answer as when
  the member exists, in which case the member is removed from the room.
\<close>

theorem leave_absent_member_noop:
  assumes "map_of rooms c = Some room"
  shows "(member_lookup room memberId = None \<longrightarrow>
            leave faults rooms c memberId = (NoContent, rooms, [])) \<and>
         (\<forall>m member. memberId = Some m \<and> map_of (members room) m = Some member \<longrightarrow>
            fst (leave faults rooms c memberId) = NoContent \<and>
            map_of (fst (snd (leave faults rooms c memberId))) c =
              Some (room\<lparr>members := map_delete (members room) m\<rparr>) \<and>
            map_of (map_delete (members room) m) m = None)"
proof -
  have "member_lookup room memberId = None \<Longrightarrow> leave faults rooms c memberId = (NoContent, rooms, [])"
    using assms by (cases memberId) (simp_all add: leave_def member_lookup_def map_has_def)
  moreover have "fst (leave faults rooms c memberId) = NoContent \<and>
            map_of (fst (snd (leave faults rooms c memberId))) c =
              Some (room\<lparr>members := map_delete (members room) m\<rparr>) \<and>
            map_of (map_delete (members room) m) m = None"
    if "memberId = Some m" "map_of (members room) m = Some member" for m member
    unfolding that(1) leave_found[OF assms that(2)]
    by (simp add: map_of_put_room_same map_delete_def delete_conv')
  ultimately show ?thesis by blast
qed

theorem leave_absent_member_noop_witness:
  "map_of sample_registry ''0F0F0F'' = Some other_room \<and>
   member_lookup other_room (Some ''00000000-0000-4000-8000-000000000000'') = None \<and>
   leave {} sample_registry ''0F0F0F'' (Some ''00000000-0000-4000-8000-000000000000'') = (NoContent, sample_registry, []) \<and>
   leave {} sample_registry ''0F0F0F'' None = (NoContent, sample_registry, []) \<and>
   fst (leave {} sample_registry ''0F0F0F'' (Some ''6f1c2d3e-4a5b-4c6d-8e7f-8091a2b3c4d5'')) = NoContent \<and>
   map_of (fst (snd (leave {} sample_registry ''0F0F0F'' (Some ''6f1c2d3e-4a5b-4c6d-8e7f-8091a2b3c4d5'')))) ''0F0F0F'' =
     Some (other_room\<lparr>members := []\<rparr>)"
proof -
  have h: "map_of sample_registry ''0F0F0F'' = Some other_room"
    by (simp add: sample_registry_def)
  have a1: "member_lookup other_room (Some ''00000000-0000-4000-8000-000000000000'') = None"
    by (simp add: member_lookup_def other_room_def)
  have a2: "member_lookup other_room None = None"
    by (simp add: member_lookup_def)
  have a3: "map_of (members other_room) ''6f1c2d3e-4a5b-4c6d-8e7f-8091a2b3c4d5'' = Some sample_member"
    by (simp add: other_room_def)
  have d: "map_delete (members other_room) ''6f1c2d3e-4a5b-4c6d-8e7f-8091a2b3c4d5'' = []"
    by (simp add: other_room_def map_delete_def AList.delete_eq)
  from leave_absent_member_noop[OF h, of "Some ''00000000-0000-4000-8000-000000000000''" "{}"]
       leave_absent_member_noop[OF h, of None "{}"]
       leave_absent_member_noop[OF h, of "Some ''6f1c2d3e-4a5b-4c6d-8e7f-8091a2b3c4d5''" "{}"] h a1 a2 a3 d
  show ?thesis by simp
qed

subsection \<open>Removal of empty rooms\<close>

lemma map_of_map_delete_same: "map_of (map_delete rooms c) c = None"
  by (simp add: map_delete_def delete_conv')

lemma on_close_returns:
  "fst (on_close faults rooms c memberId res) = Inr ()"
proof (cases "map_of rooms c")
  case None
  then show ?thesis by (simp add: on_close_def)
next
  case (Some room)
  let ?room1 = "room\<lparr>streams := set_delete (streams room) res\<rparr>"
  show ?thesis
  proof (cases "\<exists>m. memberId = Some m \<and> m \<noteq> [] \<and> map_has (members ?room1) m")
    case True
    then obtain m where m: "memberId = Some m" "m \<noteq> []" "map_has (members ?room1) m" by blast
    obtain w' where b: "broadcast faults (?room1\<lparr>members := map_delete (members ?room1) m\<rparr>) ''member-left''
             (MemberLeftData m) [] = (Inr (), w')"
      using broadcast_cases by blast
    from Some m b show ?thesis by (simp add: on_close_def Let_def)
  next
    case False
    with Some show ?thesis by (cases memberId) (auto simp: on_close_def Let_def)
  qed
qed

lemma on_close_collects_empty_room:
  assumes "map_of (fst (snd (on_close faults rooms c memberId res))) c = Some room'"
  shows "members room' \<noteq> [] \<or> streams room' \<noteq> []"
proof (cases "map_of rooms c")
  case None
  with assms show ?thesis by (simp add: on_close_def)
next
  case (Some room)
  let ?room1 = "room\<lparr>streams := set_delete (streams room) res\<rparr>"
  show ?thesis
  proof (cases "\<exists>m. memberId = Some m \<and> m \<noteq> [] \<and> map_has (members ?room1) m")
    case True
    then obtain m where m: "memberId = Some m" "m \<noteq> []" "map_has (members ?room1) m" by blast
    obtain w' where b: "broadcast faults (?room1\<lparr>members := map_delete (members ?room1) m\<rparr>) ''member-left''
             (MemberLeftData m) [] = (Inr (), w')"
      using broadcast_cases by blast
    from Some m b assms show ?thesis
      by (auto simp: on_close_def Let_def map_of_map_delete_same map_of_put_room_same split: if_splits)
  next
    case False
    with Some assms show ?thesis
      by (cases memberId) (auto simp: on_close_def Let_def map_of_map_delete_same map_of_put_room_same split: if_splits)
  qed
qed

lemma on_close_deletes_only_empty:
  assumes "map_of rooms c = Some room"
    and "map_of (fst (snd (on_close faults rooms c memberId res))) c = None"
  shows "set (streams room) \<subseteq> {res}"
proof -
  let ?room1 = "room\<lparr>streams := set_delete (streams room) res\<rparr>"
  have e: "set (streams room) \<subseteq> {res}" if "streams ?room1 = []"
  proof -
    from that have "set (removeAll res (streams room)) = {}"
      by (simp add: set_delete_def)
    then show ?thesis by auto
  qed
  show ?thesis
  proof (cases "\<exists>m. memberId = Some m \<and> m \<noteq> [] \<and> map_has (members ?room1) m")
    case True
    then obtain m where m: "memberId = Some m" "m \<noteq> []" "map_has (members ?room1) m" by blast
    obtain w' where b: "broadcast faults (?room1\<lparr>members := map_delete (members ?room1) m\<rparr>) ''member-left''
             (MemberLeftData m) [] = (Inr (), w')"
      using broadcast_cases by blast
    from assms m b have "streams ?room1 = []"
      by (auto simp: on_close_def Let_def map_of_put_room_same split: if_splits)
    then show ?thesis by (rule e)
  next
    case False
    with assms have "streams ?room1 = []"
      by (cases memberId) (auto simp: on_close_def Let_def map_of_put_room_same split: if_splits)
    then show ?thesis by (rule e)
  qed
qed

text \<open>
  Claim C2. Whenever the member set and the stream set of a room are both empty after a
  member removal or a stream disconnect, the room is absent from the registry at the next
  lookup. The \<^verbatim>\<open>close\<close> handler of a stream checks this and deletes the room
  (\<open>on_close_collects_empty_room\<close>); the leave handler does not. Below, a room is created
  in the empty registry, one member joins and, with no stream open, leaves: the room stays
  in the registry with no member and no stream.
\<close>

theorem leave_last_member_keeps_room:
  "snd (createRoom (0xA1, 0xB2, 0xC3) 400 400 400 400 [] None) = [(''A1B2C3'', fresh_room)] \<and>
   fst (snd (join {} ''6f1c2d3e-4a5b-4c6d-8e7f-8091a2b3c4d5'' 450 [(''A1B2C3'', fresh_room)] ''A1B2C3''
               None ''Alice'' ''UTC'' ''en'')) = [(''A1B2C3'', solo_room)] \<and>
   leave {} [(''A1B2C3'', solo_room)] ''A1B2C3'' (Some ''6f1c2d3e-4a5b-4c6d-8e7f-8091a2b3c4d5'') =
     (NoContent, [(''A1B2C3'', fresh_room)], []) \<and>
   map_of [(''A1B2C3'', fresh_room)] ''A1B2C3'' = Some fresh_room \<and>
   members fresh_room = [] \<and> streams fresh_room = []"
  by code_simp

subsection \<open>Write failures do not reach the handlers\<close>

lemma reset_faults_irrelevant:
  "fst (reset faults now rooms c st) = fst (reset {} now rooms c st) \<and>
   fst (snd (reset faults now rooms c st)) = fst (snd (reset {} now rooms c st))"
proof (cases "map_of rooms c")
  case None
  then show ?thesis by (simp add: reset_def)
next
  case (Some room)
  show ?thesis unfolding reset_found[OF Some] by simp
qed

subsection \<open>Joining a room\<close>

lemma join_reconnect:
  assumes "map_of rooms c = Some room" and "m \<noteq> []" and "map_of (members room) m = Some member"
  shows "join faults uuid now rooms c (Some m) nm tz lc = (Joined member (room_state_of room), rooms, [])"
  using assms by (simp add: join_def truthy_str_def member_lookup_def)

lemma join_mint:
  assumes "map_of rooms c = Some room"
    and "memberId = None \<or> memberId = Some [] \<or> member_lookup room memberId = None"
  shows "join faults uuid now rooms c memberId nm tz lc =
     (let member = \<lparr>member_id = uuid, name = nm, timezone = tz, locale_tag = lc, joinedAt = now\<rparr>;
          room' = room\<lparr>members := map_set (members room) uuid member\<rparr>
      in (Joined member (room_state_of room'), put_room rooms c room',
          snd (broadcast faults room' ''member-joined'' (MemberJoinedData member) [])))"
proof -
  let ?member = "\<lparr>member_id = uuid, name = nm, timezone = tz, locale_tag = lc, joinedAt = now\<rparr>"
  let ?room' = "room\<lparr>members := map_set (members room) uuid ?member\<rparr>"
  obtain w' where b: "broadcast faults ?room' ''member-joined'' (MemberJoinedData ?member) [] = (Inr (), w')"
    using broadcast_cases by blast
  from assms(2) have n: "(if truthy_str memberId then member_lookup room memberId else None) = None"
    by (auto simp: truthy_str_def)
  from assms(1) n b show ?thesis by (simp add: join_def Let_def)
qed

lemma join_faults_irrelevant:
  "fst (join faults uuid now rooms c memberId nm tz lc) = fst (join {} uuid now rooms c memberId nm tz lc) \<and>
   fst (snd (join faults uuid now rooms c memberId nm tz lc)) =
     fst (snd (join {} uuid now rooms c memberId nm tz lc))"
proof (cases "map_of rooms c")
  case None
  then show ?thesis by (simp add: join_def)
next
  case (Some room)
  show ?thesis
  proof (cases "memberId = None \<or> memberId = Some [] \<or> member_lookup room memberId = None")
    case True
    show ?thesis unfolding join_mint[OF Some True] by (simp add: Let_def)
  next
    case False
    then obtain m member where "memberId = Some m" "m \<noteq> []" "map_of (members room) m = Some member"
      by (cases memberId) (auto simp: member_lookup_def)
    then show ?thesis using join_reconnect[OF Some, of m member] by simp
  qed
qed

text \<open>
  Claim C3, as stated: a join that does not reconnect mints an id that was not present
  among the room's members and inserts the new member. The handler takes the value of
  \<^verbatim>\<open>crypto.randomUUID()\<close> and stores the member under it with no test: below, the generator
  returns the id of the member already in the room, and the join of Bob replaces that
  member, so that the room still has one member, under the same id.
\<close>

theorem join_colliding_uuid_overwrites:
  "map_of (members other_room) ''6f1c2d3e-4a5b-4c6d-8e7f-8091a2b3c4d5'' = Some sample_member \<and>
   join {} ''6f1c2d3e-4a5b-4c6d-8e7f-8091a2b3c4d5'' 1000 sample_registry ''0F0F0F'' None ''Bob'' ''CET'' ''de'' =
     (Joined
        \<lparr>member_id = ''6f1c2d3e-4a5b-4c6d-8e7f-8091a2b3c4d5'', name = ''Bob'', timezone = ''CET'',
           locale_tag = ''de'', joinedAt = 1000\<rparr>
        \<lparr>rs_code = ''0F0F0F'', rs_createdAt = 100, rs_startTime = 900, rs_previousStartTime = 100,
           rs_members = [\<lparr>member_id = ''6f1c2d3e-4a5b-4c6d-8e7f-8091a2b3c4d5'', name = ''Bob'',
              timezone = ''CET'', locale_tag = ''de'', joinedAt = 1000\<rparr>]\<rparr>,
      [(''A1B2C3'', sample_room),
       (''0F0F0F'',
        \<lparr>code = ''0F0F0F'', createdAt = 100, startTime = 900, previousStartTime = 100,
           members = [(''6f1c2d3e-4a5b-4c6d-8e7f-8091a2b3c4d5'',
              \<lparr>member_id = ''6f1c2d3e-4a5b-4c6d-8e7f-8091a2b3c4d5'', name = ''Bob'',
                 timezone = ''CET'', locale_tag = ''de'', joinedAt = 1000\<rparr>)],
           streams = [1, 2]\<rparr>)],
      [(1, EventLine ''member-joined''),
       (1, DataLine (MemberJoinedData \<lparr>member_id = ''6f1c2d3e-4a5b-4c6d-8e7f-8091a2b3c4d5'', name = ''Bob'',
              timezone = ''CET'', locale_tag = ''de'', joinedAt = 1000\<rparr>)),
       (2, EventLine ''member-joined''),
       (2, DataLine (MemberJoinedData \<lparr>member_id = ''6f1c2d3e-4a5b-4c6d-8e7f-8091a2b3c4d5'', name = ''Bob'',
              timezone = ''CET'', locale_tag = ''de'', joinedAt = 1000\<rparr>))])"
  by code_simp

text \<open>
  Claim C3, amended. A join on an existing room. When the request carries a non-empty
  member id that is a member of the room, the answer holds that member's stored record,
  the registry is the one before the call and nothing is written to any stream. Otherwise
  the handler takes the value of \<^verbatim>\<open>crypto.randomUUID()\<close> as the id, without comparing it
  with the room's member ids, and stores the new member under it: the room's other fields,
  the members under other ids and the other rooms are unchanged; when the id is not yet a
  member id the new member is added after the members the room had, and otherwise it
  replaces the member of that id. The answer holds the new record and the room state with it,
  and \<^verbatim>\<open>member-joined\<close> with the new record is broadcast to the room's streams, reaching
  every stream whose writes do not fail.
\<close>

theorem join_reconnect_or_mint:
  assumes "map_of rooms c = Some room"
  shows "(\<forall>m member. memberId = Some m \<and> m \<noteq> [] \<and> map_of (members room) m = Some member \<longrightarrow>
            join faults uuid now rooms c memberId nm tz lc =
              (Joined member (room_state_of room), rooms, [])) \<and>
         (memberId = None \<or> memberId = Some [] \<or> member_lookup room memberId = None \<longrightarrow>
            (let member = \<lparr>member_id = uuid, name = nm, timezone = tz, locale_tag = lc, joinedAt = now\<rparr>;
                 rooms' = fst (snd (join faults uuid now rooms c memberId nm tz lc));
                 wire' = snd (snd (join faults uuid now rooms c memberId nm tz lc))
             in \<exists>room'.
                  fst (join faults uuid now rooms c memberId nm tz lc) =
                    Joined member
                      \<lparr>rs_code = code room, rs_createdAt = createdAt room, rs_startTime = startTime room,
                       rs_previousStartTime = previousStartTime room,
                       rs_members = map snd (members room')\<rparr> \<and>
                  map_of rooms' c = Some room' \<and>
                  map fst rooms' = map fst rooms \<and>
                  (\<forall>c'. c' \<noteq> c \<longrightarrow> map_of rooms' c' = map_of rooms c') \<and>
                  room' = room\<lparr>members := members room'\<rparr> \<and>
                  map_of (members room') uuid = Some member \<and>
                  (\<forall>k. k \<noteq> uuid \<longrightarrow> map_of (members room') k = map_of (members room) k) \<and>
                  (map_of (members room) uuid = None \<longrightarrow>
                     members room' = members room @ [(uuid, member)]) \<and>
                  wire' = snd (broadcast faults room' ''member-joined'' (MemberJoinedData member) []) \<and>
                  (\<forall>h\<in>set (streams room).
                      (h, EventLine ''member-joined'') \<notin> faults \<and>
                      (h, DataLine (MemberJoinedData member)) \<notin> faults \<longrightarrow>
                      (h, EventLine ''member-joined'') \<in> set wire' \<and>
                      (h, DataLine (MemberJoinedData member)) \<in> set wire')))"
proof -
  let ?member = "\<lparr>member_id = uuid, name = nm, timezone = tz, locale_tag = lc, joinedAt = now\<rparr>"
  let ?room' = "room\<lparr>members := map_set (members room) uuid ?member\<rparr>"
  let ?j = "join faults uuid now rooms c memberId nm tz lc"
  have a: "?j = (Joined member (room_state_of room), rooms, [])"
    if "memberId = Some m" "m \<noteq> []" "map_of (members room) m = Some member" for m member
    unfolding that(1) by (rule join_reconnect[OF assms that(2,3)])
  have b: "\<exists>room'.
        fst ?j = Joined ?member
            \<lparr>rs_code = code room, rs_createdAt = createdAt room, rs_startTime = startTime room,
             rs_previousStartTime = previousStartTime room,
             rs_members = map snd (members room')\<rparr> \<and>
        map_of (fst (snd ?j)) c = Some room' \<and>
        map fst (fst (snd ?j)) = map fst rooms \<and>
        (\<forall>c'. c' \<noteq> c \<longrightarrow> map_of (fst (snd ?j)) c' = map_of rooms c') \<and>
        room' = room\<lparr>members := members room'\<rparr> \<and>
        map_of (members room') uuid = Some ?member \<and>
        (\<forall>k. k \<noteq> uuid \<longrightarrow> map_of (members room') k = map_of (members room) k) \<and>
        (map_of (members room) uuid = None \<longrightarrow>
           members room' = members room @ [(uuid, ?member)]) \<and>
        snd (snd ?j) = snd (broadcast faults room' ''member-joined'' (MemberJoinedData ?member) []) \<and>
        (\<forall>h\<in>set (streams room).
            (h, EventLine ''member-joined'') \<notin> faults \<and>
            (h, DataLine (MemberJoinedData ?member)) \<notin> faults \<longrightarrow>
            (h, EventLine ''member-joined'') \<in> set (snd (snd ?j)) \<and>
            (h, DataLine (MemberJoinedData ?member)) \<in> set (snd (snd ?j)))"
    if e: "memberId = None \<or> memberId = Some [] \<or> member_lookup room memberId = None"
  proof -
    have j: "?j = (Joined ?member (room_state_of ?room'), put_room rooms c ?room',
          snd (broadcast faults ?room' ''member-joined'' (MemberJoinedData ?member) []))"
      unfolding join_mint[OF assms e] by (simp add: Let_def)
    have p1: "fst ?j = Joined ?member
            \<lparr>rs_code = code room, rs_createdAt = createdAt room, rs_startTime = startTime room,
             rs_previousStartTime = previousStartTime room,
             rs_members = map snd (members ?room')\<rparr>"
      unfolding j by (simp add: room_state_of_def map_values_def)
    have p2: "map_of (fst (snd ?j)) c = Some ?room'"
      unfolding j by (simp add: map_of_put_room_same)
    have p3: "map fst (fst (snd ?j)) = map fst rooms"
      unfolding j by (simp add: keys_put_room[OF assms])
    have p4: "\<forall>c'. c' \<noteq> c \<longrightarrow> map_of (fst (snd ?j)) c' = map_of rooms c'"
      unfolding j by (simp add: map_of_put_room_other)
    have p5: "?room' = room\<lparr>members := members ?room'\<rparr>"
      by simp
    have p6: "map_of (members ?room') uuid = Some ?member"
      by (simp add: map_set_def update_conv')
    have p7: "\<forall>k. k \<noteq> uuid \<longrightarrow> map_of (members ?room') k = map_of (members room) k"
      by (simp add: map_set_def update_conv')
    have p8: "map_of (members room) uuid = None \<longrightarrow> members ?room' = members room @ [(uuid, ?member)]"
      by (simp add: map_set_fresh)
    have p9: "snd (snd ?j) = snd (broadcast faults ?room' ''member-joined'' (MemberJoinedData ?member) [])"
      unfolding j by simp
    have p10: "\<forall>h\<in>set (streams room).
            (h, EventLine ''member-joined'') \<notin> faults \<and>
            (h, DataLine (MemberJoinedData ?member)) \<notin> faults \<longrightarrow>
            (h, EventLine ''member-joined'') \<in> set (snd (snd ?j)) \<and>
            (h, DataLine (MemberJoinedData ?member)) \<in> set (snd (snd ?j))"
    proof (intro ballI impI)
      fix h
      assume h: "h \<in> set (streams room)"
        and w: "(h, EventLine ''member-joined'') \<notin> faults \<and>
            (h, DataLine (MemberJoinedData ?member)) \<notin> faults"
      from h have "h \<in> set (streams ?room')" by simp
      from broadcast_delivers[OF this conjunct1[OF w] conjunct2[OF w], of "[]"]
      show "(h, EventLine ''member-joined'') \<in> set (snd (snd ?j)) \<and>
            (h, DataLine (MemberJoinedData ?member)) \<in> set (snd (snd ?j))"
        unfolding p9 .
    qed
    from p1 p2 p3 p4 p5 p6 p7 p8 p9 p10 show ?thesis
      by (intro exI[of _ ?room'] conjI)
  qed
  from a b show ?thesis unfolding Let_def by blast
qed

theorem join_reconnect_or_mint_witness:
  "map_of sample_registry ''0F0F0F'' = Some other_room \<and>
   map_of (members other_room) ''6f1c2d3e-4a5b-4c6d-8e7f-8091a2b3c4d5'' = Some sample_member \<and>
   join {} ''9a2e0b1c-2d3e-4f50-a617-28394a5b6c7d'' 1000 sample_registry ''0F0F0F'' (Some ''6f1c2d3e-4a5b-4c6d-8e7f-8091a2b3c4d5'') ''Alice'' ''UTC'' ''en'' =
     (Joined sample_member
        \<lparr>rs_code = ''0F0F0F'', rs_createdAt = 100, rs_startTime = 900, rs_previousStartTime = 100,
           rs_members = [sample_member]\<rparr>,
      sample_registry, []) \<and>
   map_of (members other_room) ''9a2e0b1c-2d3e-4f50-a617-28394a5b6c7d'' = None \<and>
   (\<exists>room'. map_of (fst (snd (join {(1, EventLine ''member-joined'')} ''9a2e0b1c-2d3e-4f50-a617-28394a5b6c7d'' 1000 sample_registry
                  ''0F0F0F'' None ''Bob'' ''CET'' ''de''))) ''0F0F0F'' = Some room' \<and>
      members room' = [(''6f1c2d3e-4a5b-4c6d-8e7f-8091a2b3c4d5'', sample_member),
        (''9a2e0b1c-2d3e-4f50-a617-28394a5b6c7d'', \<lparr>member_id = ''9a2e0b1c-2d3e-4f50-a617-28394a5b6c7d'', name = ''Bob'', timezone = ''CET'', locale_tag = ''de'',
            joinedAt = 1000\<rparr>)]) \<and>
   join {(1, EventLine ''member-joined'')} ''9a2e0b1c-2d3e-4f50-a617-28394a5b6c7d'' 1000 sample_registry ''0F0F0F'' None ''Bob'' ''CET'' ''de'' =
     (Joined \<lparr>member_id = ''9a2e0b1c-2d3e-4f50-a617-28394a5b6c7d'', name = ''Bob'', timezone = ''CET'', locale_tag = ''de'', joinedAt = 1000\<rparr>
        \<lparr>rs_code = ''0F0F0F'', rs_createdAt = 100, rs_startTime = 900, rs_previousStartTime = 100,
           rs_members = [sample_member,
             \<lparr>member_id = ''9a2e0b1c-2d3e-4f50-a617-28394a5b6c7d'', name = ''Bob'', timezone = ''CET'', locale_tag = ''de'',
                joinedAt = 1000\<rparr>]\<rparr>,
      [(''A1B2C3'', sample_room),
       (''0F0F0F'',
        \<lparr>code = ''0F0F0F'', createdAt = 100, startTime = 900, previousStartTime = 100,
           members = [(''6f1c2d3e-4a5b-4c6d-8e7f-8091a2b3c4d5'', sample_member),
             (''9a2e0b1c-2d3e-4f50-a617-28394a5b6c7d'', \<lparr>member_id = ''9a2e0b1c-2d3e-4f50-a617-28394a5b6c7d'', name = ''Bob'', timezone = ''CET'', locale_tag = ''de'',
                joinedAt = 1000\<rparr>)],
           streams = [1, 2]\<rparr>)],
      [(2, EventLine ''member-joined''),
       (2, DataLine (MemberJoinedData
          \<lparr>member_id = ''9a2e0b1c-2d3e-4f50-a617-28394a5b6c7d'', name = ''Bob'', timezone = ''CET'', locale_tag = ''de'',
             joinedAt = 1000\<rparr>))])"
proof -
  let ?F = "{(1::nat, EventLine ''member-joined'')}"
  let ?bob = "\<lparr>member_id = ''9a2e0b1c-2d3e-4f50-a617-28394a5b6c7d'', name = ''Bob'', timezone = ''CET'', locale_tag = ''de'', joinedAt = 1000\<rparr>"
  have h: "map_of sample_registry ''0F0F0F'' = Some other_room"
    by (simp add: sample_registry_def)
  have m: "map_of (members other_room) ''6f1c2d3e-4a5b-4c6d-8e7f-8091a2b3c4d5'' = Some sample_member"
    by (simp add: other_room_def)
  have f: "map_of (members other_room) ''9a2e0b1c-2d3e-4f50-a617-28394a5b6c7d'' = None"
    by (simp add: other_room_def)
  have r: "room_state_of other_room =
      \<lparr>rs_code = ''0F0F0F'', rs_createdAt = 100, rs_startTime = 900, rs_previousStartTime = 100,
         rs_members = [sample_member]\<rparr>"
    by (simp add: room_state_of_def other_room_def map_values_def)
  from join_reconnect_or_mint[OF h, where memberId = "Some ''6f1c2d3e-4a5b-4c6d-8e7f-8091a2b3c4d5''" and faults = "{}" and uuid = "''9a2e0b1c-2d3e-4f50-a617-28394a5b6c7d''"
      and now = 1000 and nm = "''Alice''" and tz = "''UTC''" and lc = "''en''"] m r
  have a: "join {} ''9a2e0b1c-2d3e-4f50-a617-28394a5b6c7d'' 1000 sample_registry ''0F0F0F'' (Some ''6f1c2d3e-4a5b-4c6d-8e7f-8091a2b3c4d5'') ''Alice'' ''UTC'' ''en'' =
     (Joined sample_member
        \<lparr>rs_code = ''0F0F0F'', rs_createdAt = 100, rs_startTime = 900, rs_previousStartTime = 100,
           rs_members = [sample_member]\<rparr>,
      sample_registry, [])"
    by simp
  note t = join_reconnect_or_mint[OF h, where memberId = None and faults = ?F and uuid = "''9a2e0b1c-2d3e-4f50-a617-28394a5b6c7d''"
      and now = 1000 and nm = "''Bob''" and tz = "''CET''" and lc = "''de''"]
  have e: "(None :: string option) = None \<or> (None :: string option) = Some [] \<or>
      member_lookup other_room None = None"
    by simp
  note t2 = mp[OF conjunct2[OF t] e, unfolded Let_def]
  from t2 obtain room' where t3:
    "map_of (fst (snd (join ?F ''9a2e0b1c-2d3e-4f50-a617-28394a5b6c7d'' 1000 sample_registry ''0F0F0F'' None ''Bob'' ''CET'' ''de'')))
           ''0F0F0F'' = Some room' \<and>
     map fst (fst (snd (join ?F ''9a2e0b1c-2d3e-4f50-a617-28394a5b6c7d'' 1000 sample_registry ''0F0F0F'' None ''Bob'' ''CET'' ''de''))) =
       map fst sample_registry \<and>
     (\<forall>c'. c' \<noteq> ''0F0F0F'' \<longrightarrow>
        map_of (fst (snd (join ?F ''9a2e0b1c-2d3e-4f50-a617-28394a5b6c7d'' 1000 sample_registry ''0F0F0F'' None ''Bob'' ''CET'' ''de''))) c' =
          map_of sample_registry c') \<and>
     room' = other_room\<lparr>members := members room'\<rparr> \<and>
     map_of (members room') ''9a2e0b1c-2d3e-4f50-a617-28394a5b6c7d'' = Some ?bob \<and>
     (\<forall>k. k \<noteq> ''9a2e0b1c-2d3e-4f50-a617-28394a5b6c7d'' \<longrightarrow> map_of (members room') k = map_of (members other_room) k) \<and>
     (map_of (members other_room) ''9a2e0b1c-2d3e-4f50-a617-28394a5b6c7d'' = None \<longrightarrow>
        members room' = members other_room @ [(''9a2e0b1c-2d3e-4f50-a617-28394a5b6c7d'', ?bob)]) \<and>
     snd (snd (join ?F ''9a2e0b1c-2d3e-4f50-a617-28394a5b6c7d'' 1000 sample_registry ''0F0F0F'' None ''Bob'' ''CET'' ''de'')) =
       snd (broadcast ?F room' ''member-joined'' (MemberJoinedData ?bob) []) \<and>
     (\<forall>h\<in>set (streams other_room).
        (h, EventLine ''member-joined'') \<notin> ?F \<and> (h, DataLine (MemberJoinedData ?bob)) \<notin> ?F \<longrightarrow>
        (h, EventLine ''member-joined'') \<in>
          set (snd (snd (join ?F ''9a2e0b1c-2d3e-4f50-a617-28394a5b6c7d'' 1000 sample_registry ''0F0F0F'' None ''Bob'' ''CET'' ''de''))) \<and>
        (h, DataLine (MemberJoinedData ?bob)) \<in>
          set (snd (snd (join ?F ''9a2e0b1c-2d3e-4f50-a617-28394a5b6c7d'' 1000 sample_registry ''0F0F0F'' None ''Bob'' ''CET'' ''de''))))"
    by (elim exE conjE) (rule that, intro conjI)
  note b1 = conjunct1[OF t3]
  note b2 = conjunct1[OF conjunct2[OF conjunct2[OF conjunct2[OF conjunct2[OF conjunct2[OF conjunct2[OF t3]]]]]]]
  from b2 f have "members room' = [(''6f1c2d3e-4a5b-4c6d-8e7f-8091a2b3c4d5'', sample_member), (''9a2e0b1c-2d3e-4f50-a617-28394a5b6c7d'', ?bob)]"
    by (simp add: other_room_def)
  with b1 have b: "\<exists>room'. map_of (fst (snd (join ?F ''9a2e0b1c-2d3e-4f50-a617-28394a5b6c7d'' 1000 sample_registry
                  ''0F0F0F'' None ''Bob'' ''CET'' ''de''))) ''0F0F0F'' = Some room' \<and>
      members room' = [(''6f1c2d3e-4a5b-4c6d-8e7f-8091a2b3c4d5'', sample_member), (''9a2e0b1c-2d3e-4f50-a617-28394a5b6c7d'', ?bob)]"
    by blast
  have c: "join ?F ''9a2e0b1c-2d3e-4f50-a617-28394a5b6c7d'' 1000 sample_registry ''0F0F0F'' None ''Bob'' ''CET'' ''de'' =
     (Joined ?bob
        \<lparr>rs_code = ''0F0F0F'', rs_createdAt = 100, rs_startTime = 900, rs_previousStartTime = 100,
           rs_members = [sample_member, ?bob]\<rparr>,
      [(''A1B2C3'', sample_room),
       (''0F0F0F'',
        \<lparr>code = ''0F0F0F'', createdAt = 100, startTime = 900, previousStartTime = 100,
           members = [(''6f1c2d3e-4a5b-4c6d-8e7f-8091a2b3c4d5'', sample_member), (''9a2e0b1c-2d3e-4f50-a617-28394a5b6c7d'', ?bob)],
           streams = [1, 2]\<rparr>)],
      [(2, EventLine ''member-joined''), (2, DataLine (MemberJoinedData ?bob))])"
    by code_simp
  from h m a f b c show ?thesis by (intro conjI)
qed

text \<open>Member ids come from the generator only.\<close>

lemma join_member_ids:
  assumes "map_of rooms c = Some room"
    and "map_of (fst (snd (join faults uuid now rooms c memberId nm tz lc))) c = Some room'"
  shows "fst ` set (members room') \<subseteq> insert uuid (fst ` set (members room))"
proof (cases "memberId = None \<or> memberId = Some [] \<or> member_lookup room memberId = None")
  case True
  from assms(2) have "room' = room\<lparr>members := map_set (members room) uuid
      \<lparr>member_id = uuid, name = nm, timezone = tz, locale_tag = lc, joinedAt = now\<rparr>\<rparr>"
    unfolding join_mint[OF assms(1) True] by (simp add: Let_def map_of_put_room_same)
  moreover have "set (map fst (AList.update uuid v (members room))) \<subseteq> insert uuid (set (map fst (members room)))" for v
    by (auto simp: update_keys)
  ultimately show ?thesis by (simp add: map_set_def)
next
  case False
  then obtain m member where "memberId = Some m" "m \<noteq> []" "map_of (members room) m = Some member"
    by (cases memberId) (auto simp: member_lookup_def)
  with assms join_reconnect[OF assms(1), of m member faults uuid now nm tz lc] show ?thesis by auto
qed

subsection \<open>Opening a stream\<close>

lemma set_set_add: "set (set_add s x) = insert x (set s)"
  by (auto simp: set_add_def)

lemma events_found:
  assumes "map_of rooms c = Some room"
  shows "events faults rooms c res =
     (StreamOpen, put_room rooms c (room\<lparr>streams := set_add (streams room) res\<rparr>),
      snd (sendSSE faults res ''init'' (init_payload room) []))"
proof -
  have p: "init_payload (room\<lparr>streams := set_add (streams room) res\<rparr>) = init_payload room"
    by (simp add: init_payload_def)
  obtain x w' where s: "sendSSE faults res ''init'' (init_payload room) [] = (x, w')"
    by (cases "sendSSE faults res ''init'' (init_payload room) []")
  with sendSSE_returns[of faults res "''init''" "init_payload room" "[]"] have "x = Inr ()"
    by simp
  with assms p s show ?thesis
    by (simp add: events_def Let_def)
qed

text \<open>
  Claim C6. Opening a stream. When the code is not in the registry the answer is 404 and
  nothing is attached or written. Otherwise the handle is added to the room's streams, and
  one \<^verbatim>\<open>init\<close> event with the room's creation time, start time, previous start time, code
  and member list at that moment is sent to the new handle and to no other: the wire
  holds the two chunks of that event for the new handle (or, when a write to the new handle
  fails, a prefix of them) and nothing else.
\<close>

theorem events_attach_and_init:
  "(map_of rooms c = None \<longrightarrow> events faults rooms c res = (NotFound, rooms, [])) \<and>
   (\<forall>room. map_of rooms c = Some room \<longrightarrow>
      fst (events faults rooms c res) = StreamOpen \<and>
      fst (snd (events faults rooms c res)) =
        put_room rooms c (room\<lparr>streams := set_add (streams room) res\<rparr>) \<and>
      set (set_add (streams room) res) = insert res (set (streams room)) \<and>
      (snd (snd (events faults rooms c res)) = [] \<or>
       snd (snd (events faults rooms c res)) = [(res, EventLine ''init'')] \<or>
       snd (snd (events faults rooms c res)) =
         [(res, EventLine ''init''),
          (res, DataLine (InitData (createdAt room) (startTime room) (previousStartTime room)
             (code room) (map snd (members room))))]) \<and>
      ((res, EventLine ''init'') \<notin> faults \<and>
       (res, DataLine (InitData (createdAt room) (startTime room) (previousStartTime room)
             (code room) (map snd (members room)))) \<notin> faults \<longrightarrow>
       snd (snd (events faults rooms c res)) =
         [(res, EventLine ''init''),
          (res, DataLine (InitData (createdAt room) (startTime room) (previousStartTime room)
             (code room) (map snd (members room))))]))"
proof -
  have "events faults rooms c res = (NotFound, rooms, [])" if "map_of rooms c = None"
    using that by (simp add: events_def)
  moreover have "fst (events faults rooms c res) = StreamOpen \<and>
      fst (snd (events faults rooms c res)) =
        put_room rooms c (room\<lparr>streams := set_add (streams room) res\<rparr>) \<and>
      set (set_add (streams room) res) = insert res (set (streams room)) \<and>
      (snd (snd (events faults rooms c res)) = [] \<or>
       snd (snd (events faults rooms c res)) = [(res, EventLine ''init'')] \<or>
       snd (snd (events faults rooms c res)) =
         [(res, EventLine ''init''),
          (res, DataLine (InitData (createdAt room) (startTime room) (previousStartTime room)
             (code room) (map snd (members room))))]) \<and>
      ((res, EventLine ''init'') \<notin> faults \<and>
       (res, DataLine (InitData (createdAt room) (startTime room) (previousStartTime room)
             (code room) (map snd (members room)))) \<notin> faults \<longrightarrow>
       snd (snd (events faults rooms c res)) =
         [(res, EventLine ''init''),
          (res, DataLine (InitData (createdAt room) (startTime room) (previousStartTime room)
             (code room) (map snd (members room))))])"
    if "map_of rooms c = Some room" for room
    unfolding events_found[OF that]
    by (simp add: set_set_add sendSSE_wire init_payload_def map_values_def)
  ultimately show ?thesis by blast
qed

theorem events_attach_and_init_witness:
  "map_of sample_registry ''FFFFFF'' = None \<and>
   events {} sample_registry ''FFFFFF'' 3 = (NotFound, sample_registry, []) \<and>
   map_of sample_registry ''0F0F0F'' = Some other_room \<and>
   fst (events {} sample_registry ''0F0F0F'' 3) = StreamOpen \<and>
   fst (snd (events {} sample_registry ''0F0F0F'' 3)) =
     [(''A1B2C3'', sample_room), (''0F0F0F'', other_room\<lparr>streams := [1, 2, 3]\<rparr>)] \<and>
   snd (snd (events {} sample_registry ''0F0F0F'' 3)) =
     [(3, EventLine ''init''), (3, DataLine (InitData 100 900 100 ''0F0F0F'' [sample_member]))]"
proof -
  have h0: "map_of sample_registry ''FFFFFF'' = None"
    by (simp add: sample_registry_def)
  have h1: "map_of sample_registry ''0F0F0F'' = Some other_room"
    by (simp add: sample_registry_def)
  have p: "put_room sample_registry ''0F0F0F'' (other_room\<lparr>streams := set_add (streams other_room) 3\<rparr>) =
      [(''A1B2C3'', sample_room), (''0F0F0F'', other_room\<lparr>streams := [1, 2, 3]\<rparr>)]"
    by (simp add: put_room_def sample_registry_def set_add_def other_room_def)
  from events_attach_and_init[of sample_registry "''FFFFFF''" "{}" 3]
       events_attach_and_init[of sample_registry "''0F0F0F''" "{}" 3] h0 h1 p
  show ?thesis by (simp add: other_room_def)
qed

subsection \<open>Exception safety of the handlers\<close>

lemma on_close_faults_irrelevant:
  "fst (snd (on_close faults rooms c memberId res)) = fst (snd (on_close {} rooms c memberId res))"
proof (cases "map_of rooms c")
  case None
  then show ?thesis by (simp add: on_close_def)
next
  case (Some room)
  let ?room1 = "room\<lparr>streams := set_delete (streams room) res\<rparr>"
  show ?thesis
  proof (cases "\<exists>m. memberId = Some m \<and> m \<noteq> [] \<and> map_has (members ?room1) m")
    case True
    then obtain m where m: "memberId = Some m" "m \<noteq> []" "map_has (members ?room1) m" by blast
    obtain w1 where b1: "broadcast faults (?room1\<lparr>members := map_delete (members ?room1) m\<rparr>) ''member-left''
             (MemberLeftData m) [] = (Inr (), w1)"
      using broadcast_cases by blast
    obtain w2 where b2: "broadcast {} (?room1\<lparr>members := map_delete (members ?room1) m\<rparr>) ''member-left''
             (MemberLeftData m) [] = (Inr (), w2)"
      using broadcast_cases by blast
    from Some m b1 b2 show ?thesis by (simp add: on_close_def Let_def)
  next
    case False
    with Some show ?thesis by (cases memberId) (auto simp: on_close_def Let_def)
  qed
qed

lemma reset_server_error:
  assumes "fst (reset faults now rooms c st) = ServerError e"
  shows "e = RangeError \<and> \<not> date_valid (num_or st now)"
proof (cases "map_of rooms c")
  case None
  with assms show ?thesis by (simp add: reset_def)
next
  case (Some room)
  from assms show ?thesis unfolding reset_found[OF Some] by (simp split: if_splits)
qed

lemma leave_no_server_error: "fst (leave faults rooms c memberId) = NoContent"
proof (cases "\<exists>room m member. map_of rooms c = Some room \<and> memberId = Some m \<and> map_of (members room) m = Some member")
  case True
  then obtain room m member where
    h: "map_of rooms c = Some room" "memberId = Some m" "map_of (members room) m = Some member"
    by blast
  show ?thesis unfolding h(2) leave_found[OF h(1,3)] by simp
next
  case False
  then have "leave faults rooms c memberId = (NoContent, rooms, [])"
    by (cases "map_of rooms c"; cases memberId) (auto simp: leave_def map_has_def)
  then show ?thesis by simp
qed

lemma join_no_server_error: "fst (join faults uuid now rooms c memberId nm tz lc) \<noteq> ServerError e"
proof (cases "map_of rooms c")
  case None
  then show ?thesis by (simp add: join_def)
next
  case (Some room)
  show ?thesis
  proof (cases "memberId = None \<or> memberId = Some [] \<or> member_lookup room memberId = None")
    case True
    show ?thesis unfolding join_mint[OF Some True] by (simp add: Let_def)
  next
    case False
    then obtain m member where "memberId = Some m" "m \<noteq> []" "map_of (members room) m = Some member"
      by (cases memberId) (auto simp: member_lookup_def)
    then show ?thesis using join_reconnect[OF Some, of m member] by simp
  qed
qed

text \<open>
  Claim C7. A broadcast never raises an exception to its caller, whatever writes fail, and
  a write failure on one stream does not keep the event from any other stream: every stream
  of the room whose two writes do not fail receives both chunks of the event. So the
  mutation that triggers a broadcast always completes: the answer and the registry after a
  reset, a join, a leave and a \<^verbatim>\<open>close\<close> handler are the ones of the run in which no
  write fails. A join and a leave never end in a server error; a reset does so only by the
  \<^verbatim>\<open>RangeError\<close> of its log line, for a start time that is not a valid date, in which case
  no broadcast is started, and never because a write failed.
\<close>

theorem broadcast_exception_safe:
  "fst (broadcast faults room event data w) = Inr () \<and>
   (\<forall>h\<in>set (streams room).
       (h, EventLine event) \<notin> faults \<and> (h, DataLine data) \<notin> faults \<longrightarrow>
       (h, EventLine event) \<in> set (snd (broadcast faults room event data w)) \<and>
       (h, DataLine data) \<in> set (snd (broadcast faults room event data w))) \<and>
   fst (reset faults now rooms c st) = fst (reset {} now rooms c st) \<and>
   fst (snd (reset faults now rooms c st)) = fst (snd (reset {} now rooms c st)) \<and>
   fst (join faults uuid now rooms c memberId nm tz lc) = fst (join {} uuid now rooms c memberId nm tz lc) \<and>
   fst (snd (join faults uuid now rooms c memberId nm tz lc)) =
     fst (snd (join {} uuid now rooms c memberId nm tz lc)) \<and>
   fst (leave faults rooms c leaver) = fst (leave {} rooms c leaver) \<and>
   fst (snd (leave faults rooms c leaver)) = fst (snd (leave {} rooms c leaver)) \<and>
   fst (on_close faults rooms c memberId res) = Inr () \<and>
   fst (snd (on_close faults rooms c memberId res)) = fst (snd (on_close {} rooms c memberId res)) \<and>
   (\<forall>e. fst (join faults uuid now rooms c memberId nm tz lc) \<noteq> ServerError e \<and>
        fst (leave faults rooms c leaver) \<noteq> ServerError e) \<and>
   (\<forall>e. fst (reset faults now rooms c st) = ServerError e \<longrightarrow>
        e = RangeError \<and> \<not> date_valid (num_or st now))"
proof -
  have d: "\<forall>h\<in>set (streams room).
       (h, EventLine event) \<notin> faults \<and> (h, DataLine data) \<notin> faults \<longrightarrow>
       (h, EventLine event) \<in> set (snd (broadcast faults room event data w)) \<and>
       (h, DataLine data) \<in> set (snd (broadcast faults room event data w))"
    using broadcast_delivers[of _ room event faults data w] by blast
  have e: "\<forall>e. fst (join faults uuid now rooms c memberId nm tz lc) \<noteq> ServerError e \<and>
        fst (leave faults rooms c leaver) \<noteq> ServerError e"
    by (simp add: join_no_server_error leave_no_server_error)
  have f: "\<forall>e. fst (reset faults now rooms c st) = ServerError e \<longrightarrow>
        e = RangeError \<and> \<not> date_valid (num_or st now)"
    using reset_server_error[of faults now rooms c st] by blast
  note r = reset_faults_irrelevant[of faults now rooms c st]
  note j = join_faults_irrelevant[of faults uuid now rooms c memberId nm tz lc]
  note l = leave_faults_irrelevant[of faults rooms c leaver]
  show ?thesis
  proof (intro conjI)
    show "fst (broadcast faults room event data w) = Inr ()" by (rule broadcast_returns)
    show "\<forall>h\<in>set (streams room).
       (h, EventLine event) \<notin> faults \<and> (h, DataLine data) \<notin> faults \<longrightarrow>
       (h, EventLine event) \<in> set (snd (broadcast faults room event data w)) \<and>
       (h, DataLine data) \<in> set (snd (broadcast faults room event data w))" by (rule d)
    show "fst (reset faults now rooms c st) = fst (reset {} now rooms c st)" by (rule conjunct1[OF r])
    show "fst (snd (reset faults now rooms c st)) = fst (snd (reset {} now rooms c st))"
      by (rule conjunct2[OF r])
    show "fst (join faults uuid now rooms c memberId nm tz lc) = fst (join {} uuid now rooms c memberId nm tz lc)"
      by (rule conjunct1[OF j])
    show "fst (snd (join faults uuid now rooms c memberId nm tz lc)) =
        fst (snd (join {} uuid now rooms c memberId nm tz lc))"
      by (rule conjunct2[OF j])
    show "fst (leave faults rooms c leaver) = fst (leave {} rooms c leaver)" by (rule conjunct1[OF l])
    show "fst (snd (leave faults rooms c leaver)) = fst (snd (leave {} rooms c leaver))"
      by (rule conjunct2[OF l])
    show "fst (on_close faults rooms c memberId res) = Inr ()" by (rule on_close_returns)
    show "fst (snd (on_close faults rooms c memberId res)) = fst (snd (on_close {} rooms c memberId res))"
      by (rule on_close_faults_irrelevant)
    show "\<forall>e. fst (join faults uuid now rooms c memberId nm tz lc) \<noteq> ServerError e \<and>
        fst (leave faults rooms c leaver) \<noteq> ServerError e" by (rule e)
    show "\<forall>e. fst (reset faults now rooms c st) = ServerError e \<longrightarrow>
        e = RangeError \<and> \<not> date_valid (num_or st now)" by (rule f)
  qed
qed

theorem broadcast_exception_safe_witness:
  "1 \<in> set (streams other_room) \<and> 2 \<in> set (streams other_room) \<and>
   (2, EventLine ''timer-update'') \<notin> {(1::nat, DataLine (TimerUpdateData 2000 900))} \<and>
   (2, DataLine (TimerUpdateData 2000 900)) \<notin> {(1::nat, DataLine (TimerUpdateData 2000 900))} \<and>
   fst (broadcast {(1, DataLine (TimerUpdateData 2000 900))} other_room ''timer-update''
          (TimerUpdateData 2000 900) []) = Inr () \<and>
   snd (broadcast {(1, DataLine (TimerUpdateData 2000 900))} other_room ''timer-update''
          (TimerUpdateData 2000 900) []) =
     [(1, EventLine ''timer-update''), (2, EventLine ''timer-update''),
      (2, DataLine (TimerUpdateData 2000 900))] \<and>
   fst (reset {(1, DataLine (TimerUpdateData 2000 900))} 950 sample_registry ''0F0F0F'' (Some 2000)) =
     TimerReset 2000 \<and>
   fst (reset {(1, DataLine (TimerUpdateData 2000 900))} 950 sample_registry ''0F0F0F''
          (Some 8640000000000001)) = ServerError RangeError"
proof -
  have r2: "fst (reset {} 950 sample_registry ''0F0F0F'' (Some 8640000000000001)) = ServerError RangeError"
    by code_simp
  have "fst (reset {(1, DataLine (TimerUpdateData 2000 900))} 950 sample_registry ''0F0F0F''
          (Some 8640000000000001)) = fst (reset {} 950 sample_registry ''0F0F0F'' (Some 8640000000000001))"
    by (rule broadcast_exception_safe[where faults = "{(1, DataLine (TimerUpdateData 2000 900))}"
         and now = 950 and rooms = sample_registry and c = "''0F0F0F''" and st = "Some 8640000000000001",
         THEN conjunct2, THEN conjunct2, THEN conjunct1])
  with r2 have r3: "fst (reset {(1, DataLine (TimerUpdateData 2000 900))} 950 sample_registry ''0F0F0F''
          (Some 8640000000000001)) = ServerError RangeError"
    by simp
  have s: "1 \<in> set (streams other_room)" "2 \<in> set (streams other_room)"
    by (simp_all add: other_room_def)
  have w: "snd (broadcast {(1, DataLine (TimerUpdateData 2000 900))} other_room ''timer-update''
          (TimerUpdateData 2000 900) []) =
     [(1, EventLine ''timer-update''), (2, EventLine ''timer-update''),
      (2, DataLine (TimerUpdateData 2000 900))]"
    by (simp add: broadcast_wire sendSSE_wire other_room_def)
  have r: "fst (reset {} 950 sample_registry ''0F0F0F'' (Some 2000)) = TimerReset 2000"
    by code_simp
  have "fst (broadcast {(1, DataLine (TimerUpdateData 2000 900))} other_room ''timer-update''
          (TimerUpdateData 2000 900) []) = Inr () \<and>
      fst (reset {(1, DataLine (TimerUpdateData 2000 900))} 950 sample_registry ''0F0F0F'' (Some 2000)) =
        fst (reset {} 950 sample_registry ''0F0F0F'' (Some 2000))"
    using broadcast_exception_safe[where faults = "{(1, DataLine (TimerUpdateData 2000 900))}"
         and room = other_room and event = "''timer-update''" and data = "TimerUpdateData 2000 900"
         and w = "[]" and now = 950 and rooms = sample_registry and c = "''0F0F0F''" and st = "Some 2000"]
    by blast
  with s w r r3 show ?thesis by simp
qed

end
